theory Spec2Isabelle
  imports Complex_Main "HOL-Library.Sublist"
begin

section \<open>Python values, f-strings and exceptions\<close>

text \<open>
  The plotting code computes with Python numbers (\<open>Union[int, float]\<close>).  An \<open>int\<close> is
  unbounded; a \<open>float\<close> is modelled as an exact real number, so rounding, overflow and
  \<open>nan\<close> of IEEE doubles are outside the model.  Arithmetic between an \<open>int\<close> and a
  \<open>float\<close> yields a \<open>float\<close>, as in Python.
\<close>

datatype pynum = PyInt int | PyFloat real

fun to_real :: "pynum \<Rightarrow> real" where
  "to_real (PyInt i) = real_of_int i"
| "to_real (PyFloat r) = r"

fun py_sub :: "pynum \<Rightarrow> pynum \<Rightarrow> pynum" where
  "py_sub (PyInt a) (PyInt b) = PyInt (a - b)"
| "py_sub a b = PyFloat (to_real a - to_real b)"

fun py_add :: "pynum \<Rightarrow> pynum \<Rightarrow> pynum" where
  "py_add (PyInt a) (PyInt b) = PyInt (a + b)"
| "py_add a b = PyFloat (to_real a + to_real b)"

fun py_mul :: "pynum \<Rightarrow> pynum \<Rightarrow> pynum" where
  "py_mul (PyInt a) (PyInt b) = PyInt (a * b)"
| "py_mul a b = PyFloat (to_real a * to_real b)"

fun py_abs :: "pynum \<Rightarrow> pynum" where
  "py_abs (PyInt a) = PyInt \<bar>a\<bar>"
| "py_abs (PyFloat a) = PyFloat \<bar>a\<bar>"

text \<open>\<open>10**(-n)\<close> for a positive \<open>n\<close>: an \<open>int\<close> raised to a negative \<open>int\<close> is a \<open>float\<close>.\<close>

definition py_pow10_neg :: "nat \<Rightarrow> pynum" where
  "py_pow10_neg n = PyFloat (1 / 10 ^ n)"

text \<open>
  A value that is interpolated into an f-string is a \<open>str\<close> or a number.  An f-string is
  kept as the sequence of its literal pieces and interpolated values, in source order; the
  textual rendering of a \<open>float\<close> is not modelled.
\<close>

datatype pyval = Str string | Num pynum

datatype piece = Lit string | Interp pyval

type_synonym fstring = "piece list"

text \<open>
  The exceptions the code raises.  \<open>NotImplementedError\<close> is the exception the specification
  calls \<open>UnsupportedKeyError\<close>, and \<open>AssertionError\<close> the one it calls
  \<open>DataIntegrityError\<close>; \<open>UnboundLocalError\<close> is what Python raises when a function
  returns a local variable that no branch assigned.
\<close>

datatype error =
    NotImplementedError
  | AssertionError
  | UnboundLocalError
  | AttributeError
  | IndexError
  | ValueError
  | InvalidArgumentError string
  | UnsupportedTypeError string

text \<open>\<open>str.lower\<close> on ASCII text (class names and column names are ASCII identifiers).\<close>

definition lower_char :: "char \<Rightarrow> char" where
  "lower_char c =
     (let n = (of_char c :: nat) in if 65 \<le> n \<and> n \<le> 90 then char_of (n + 32) else c)"

definition lower :: "string \<Rightarrow> string" where
  "lower s = map lower_char s"

text \<open>\<open>str(n)\<close> for a non-negative \<open>int\<close>: its decimal digits.\<close>

definition digit_char :: "nat \<Rightarrow> char" where
  "digit_char d = char_of (48 + d)"

fun str_of_nat :: "nat \<Rightarrow> string" where
  "str_of_nat n = (if n < 10 then [digit_char n] else str_of_nat (n div 10) @ [digit_char (n mod 10)])"

declare str_of_nat.simps [simp del]

text \<open>\<open>range(start, stop, step)\<close> for a positive step.\<close>

function py_range :: "nat \<Rightarrow> nat \<Rightarrow> nat \<Rightarrow> nat list" where
  "py_range i stop step =
     (if step = 0 \<or> stop \<le> i then [] else i # py_range (i + step) stop step)"
  by pat_completeness auto
termination
  by (relation "measure (\<lambda>(i, stop, step). stop - i)") auto

declare py_range.simps [simp del]

section \<open>Runtime objects\<close>

text \<open>
  Modelled from the spec: the runtime classes (\<open>CallbackBase\<close>, \<open>TimerCallback\<close>,
  \<open>SubscriptionCallback\<close>, \<open>Communication\<close>, \<open>Publisher\<close>, \<open>Subscription\<close>) are imported
  from a module that is not part of the sources.  An object is given by its identity, its
  class and its attribute dictionary.  The classes define no equality of their own, so a
  dictionary keyed by objects compares keys by identity (\<open>oid\<close>).
\<close>

datatype py_class =
    TimerCallback
  | SubscriptionCallback
  | OtherCallback string
  | Communication
  | Publisher
  | Subscription
  | OtherClass string

datatype py_object =
  PyObject (oid: nat) (cls: py_class) (attrs: "string \<rightharpoonup> pyval")

text \<open>\<open>type(obj).__name__\<close>.\<close>

fun class_name :: "py_class \<Rightarrow> string" where
  "class_name TimerCallback = ''TimerCallback''"
| "class_name SubscriptionCallback = ''SubscriptionCallback''"
| "class_name (OtherCallback n) = n"
| "class_name Communication = ''Communication''"
| "class_name Publisher = ''Publisher''"
| "class_name Subscription = ''Subscription''"
| "class_name (OtherClass n) = n"

text \<open>\<open>isinstance(obj, CallbackBase)\<close>: the two known callback classes and any other subclass.\<close>

fun is_CallbackBase :: "py_class \<Rightarrow> bool" where
  "is_CallbackBase TimerCallback = True"
| "is_CallbackBase SubscriptionCallback = True"
| "is_CallbackBase (OtherCallback n) = True"
| "is_CallbackBase c = False"

text \<open>\<open>getattr(obj, k)\<close>: raises \<open>AttributeError\<close> when the object has no such attribute.\<close>

definition getattr :: "py_object \<Rightarrow> string \<Rightarrow> error + pyval" where
  "getattr obj k = (case attrs obj k of None \<Rightarrow> Inl AttributeError | Some v \<Rightarrow> Inr v)"

section \<open>LegendManager\<close>

type_synonym renderer = nat

type_synonym legend_item = "string \<times> renderer list"

record LegendManager =
  legend_count_map :: "string \<Rightarrow> nat"
  legend_items :: "legend_item list"
  legend :: "nat \<rightharpoonup> string"

text \<open>\<open>__init__\<close>: \<open>defaultdict(int)\<close> reads 0 for a key that was never written.\<close>

definition LegendManager_init :: LegendManager where
  "LegendManager_init =
     \<lparr>legend_count_map = (\<lambda>_. 0), legend_items = [], legend = Map.empty\<rparr>"

definition get_label :: "LegendManager \<Rightarrow> py_object \<Rightarrow> string \<times> LegendManager" where
  "get_label lm target_object =
     (case legend lm (oid target_object) of
        Some label \<Rightarrow> (label, lm)
      | None \<Rightarrow>
          (let cname = class_name (cls target_object);
               label = lower cname @ str_of_nat (legend_count_map lm cname)
           in (label,
               lm\<lparr>legend_count_map := (legend_count_map lm)(cname := legend_count_map lm cname + 1),
                  legend := (legend lm)(oid target_object \<mapsto> label)\<rparr>)))"

definition add_legend :: "LegendManager \<Rightarrow> py_object \<Rightarrow> renderer \<Rightarrow> LegendManager" where
  "add_legend lm target_object rend =
     (let (label, lm1) = get_label lm target_object
      in lm1\<lparr>legend_items := legend_items lm1 @ [(label, [rend])],
              legend := (legend lm1)(oid target_object \<mapsto> label)\<rparr>)"

text \<open>
  The figure, as far as \<open>draw_legends\<close> touches it: the \<open>Legend\<close> layouts added to its
  right, each with its items and click policy (bokeh's default policy is \<open>none\<close>).
\<close>

record Legend =
  items :: "legend_item list"
  click_policy :: string

record Figure =
  legends :: "Legend list"

definition add_layout :: "Figure \<Rightarrow> Legend \<Rightarrow> Figure" where
  "add_layout fig l = fig\<lparr>legends := legends fig @ [l]\<rparr>"

definition truncation_warning :: "int \<Rightarrow> fstring" where
  "truncation_warning max_legends =
     [Lit ''The maximum number of legends drawn by default is '',
      Interp (Num (PyInt max_legends)),
      Lit ''. If you want all legends to be displayed, please specify the `full_legends` option to True.'']"

text \<open>
  The page loop of \<open>draw_legends\<close> over the indices \<open>range(0, len(items)+10, 10)\<close>; the state
  is the figure and the warnings logged so far.  The \<open>break\<close> ends the loop.
\<close>

fun draw_loop ::
  "bool \<Rightarrow> int \<Rightarrow> legend_item list \<Rightarrow> nat list \<Rightarrow> Figure \<times> fstring list \<Rightarrow> Figure \<times> fstring list"
where
  "draw_loop full_legends max_legends its [] st = st"
| "draw_loop full_legends max_legends its (i # rest) (fig, warnings) =
     (if \<not> full_legends \<and> int i \<ge> max_legends
      then (fig, warnings @ [truncation_warning max_legends])
      else draw_loop full_legends max_legends its rest
             (add_layout fig \<lparr>items = take 10 (drop i its), click_policy = ''none''\<rparr>, warnings))"

definition draw_legends ::
  "LegendManager \<Rightarrow> Figure \<Rightarrow> int \<Rightarrow> bool \<Rightarrow> Figure \<times> fstring list"
where
  "draw_legends lm fig max_legends full_legends =
     (let (fig1, warnings) =
            draw_loop full_legends max_legends (legend_items lm)
              (py_range 0 (length (legend_items lm) + 10) 10) (fig, [])
      in (fig1\<lparr>legends := map (\<lambda>l. l\<lparr>click_policy := ''hide''\<rparr>) (legends fig1)\<rparr>, warnings))"

text \<open>The legend entries a figure shows: the items of all its legend layouts, in order.\<close>

definition emitted :: "Figure \<Rightarrow> legend_item list" where
  "emitted fig = concat (map items (legends fig))"

section \<open>Dictionaries and column data sources\<close>

text \<open>
  A Python \<open>dict\<close> keeps its keys in insertion order; assigning to a key that is present
  replaces the value in place.  \<open>dict_of_keys\<close> is the comprehension \<open>{k: [] for k in keys}\<close>
  and \<open>dict_merge a b\<close> is \<open>{**a, **b}\<close>.
\<close>

fun dict_set :: "('k \<times> 'v) list \<Rightarrow> 'k \<Rightarrow> 'v \<Rightarrow> ('k \<times> 'v) list" where
  "dict_set [] k v = [(k, v)]"
| "dict_set ((k', v') # d) k v = (if k' = k then (k, v) # d else (k', v') # dict_set d k v)"

definition dict_of_keys :: "'k list \<Rightarrow> ('k \<times> 'v list) list" where
  "dict_of_keys ks = fold (\<lambda>k d. dict_set d k []) ks []"

definition dict_merge :: "('k \<times> 'v) list \<Rightarrow> ('k \<times> 'v) list \<Rightarrow> ('k \<times> 'v) list" where
  "dict_merge a b = fold (\<lambda>(k, v) d. dict_set d k v) b a"

datatype cell = NumCell pynum | StrCell fstring

type_synonym ColumnDataSource = "(string \<times> cell list) list"

text \<open>
  bokeh's \<open>ColumnDataSource.stream\<close> appends the new cells to every column and raises
  \<open>ValueError\<close> unless the update names exactly the existing columns.
\<close>

definition stream :: "ColumnDataSource \<Rightarrow> (string \<times> cell list) list \<Rightarrow> error + ColumnDataSource" where
  "stream src new_data =
     (if set (map fst new_data) = set (map fst src)
      then Inr (map (\<lambda>(k, col). (k, col @ (case map_of new_data k of Some cs \<Rightarrow> cs | None \<Rightarrow> []))) src)
      else Inl ValueError)"

section \<open>BokehSourceInterface\<close>

type_synonym data_dict = "(string \<times> cell list) list"

definition get_description ::
  "LegendManager \<Rightarrow> string \<Rightarrow> py_object \<Rightarrow> (error + fstring) \<times> LegendManager"
where
  "get_description lm key target_object =
     (if key = ''callback_param'' then
        (if cls target_object = TimerCallback then
           (case getattr target_object ''period_ns'' of
              Inl e \<Rightarrow> (Inl e, lm)
            | Inr v \<Rightarrow> (Inr [Lit ''period_ns = '', Interp v], lm))
         else if cls target_object = SubscriptionCallback then
           (case getattr target_object ''subscribe_topic_name'' of
              Inl e \<Rightarrow> (Inl e, lm)
            | Inr v \<Rightarrow> (Inr [Lit ''subscribe_topic_name = '', Interp v], lm))
         else (Inl UnboundLocalError, lm))
      else if key = ''legend_label'' then
        (let (label, lm1) = get_label lm target_object
         in (Inr [Lit ''legend_label = '', Interp (Str label)], lm1))
      else (Inl NotImplementedError, lm))"

text \<open>
  The loop of \<open>_get_data_dict\<close> over the source keys: the attribute when the object has it,
  the description rule when reading it raises \<open>AttributeError\<close>.
\<close>

fun get_data_dict_loop ::
  "py_object \<Rightarrow> string list \<Rightarrow> LegendManager \<Rightarrow> data_dict \<Rightarrow> (error + data_dict) \<times> LegendManager"
where
  "get_data_dict_loop target_object [] lm dd = (Inr dd, lm)"
| "get_data_dict_loop target_object (k # ks) lm dd =
     (case getattr target_object k of
        Inr v \<Rightarrow>
          get_data_dict_loop target_object ks lm
            (dict_set dd k [StrCell [Interp (Str k), Lit '' = '', Interp v]])
      | Inl e \<Rightarrow>
          (if e = AttributeError then
             (case get_description lm k target_object of
                (Inl e', lm1) \<Rightarrow> (Inl e', lm1)
              | (Inr d, lm1) \<Rightarrow> get_data_dict_loop target_object ks lm1 (dict_set dd k [StrCell d]))
           else (Inl e, lm)))"

text \<open>\<open>_get_source_keys\<close> is abstract; each source class supplies its own.\<close>

definition get_data_dict ::
  "(py_object \<Rightarrow> error + string list) \<Rightarrow> LegendManager \<Rightarrow> py_object \<Rightarrow>
   (error + data_dict) \<times> LegendManager"
where
  "get_data_dict get_source_keys lm target_object =
     (case get_source_keys target_object of
        Inl e \<Rightarrow> (Inl e, lm)
      | Inr ks \<Rightarrow> get_data_dict_loop target_object ks lm [])"

section \<open>RectValues\<close>

text \<open>\<open>float(np.mean(xs))\<close>: the arithmetic mean, always a \<open>float\<close>.\<close>

definition np_mean :: "pynum list \<Rightarrow> pynum" where
  "np_mean xs = PyFloat (sum_list (map to_real xs) / real (length xs))"

record RectValues =
  rv_y :: "pynum list"
  rv_x :: "pynum list"

definition RectValues_init :: "pynum \<Rightarrow> pynum \<Rightarrow> pynum \<Rightarrow> pynum \<Rightarrow> RectValues" where
  "RectValues_init callback_start callback_end y_min y_max =
     \<lparr>rv_y = [y_min, y_max], rv_x = [callback_start, callback_end]\<rparr>"

definition rect_x :: "RectValues \<Rightarrow> pynum" where
  "rect_x rv = np_mean (rv_x rv)"

definition rect_y :: "RectValues \<Rightarrow> pynum" where
  "rect_y rv = np_mean (rv_y rv)"

definition rect_width :: "RectValues \<Rightarrow> pynum" where
  "rect_width rv = py_abs (py_sub (rv_x rv ! 0) (rv_x rv ! 1))"

definition rect_height :: "RectValues \<Rightarrow> pynum" where
  "rect_height rv = py_abs (py_sub (rv_y rv ! 0) (rv_y rv ! 1))"

section \<open>CallbackSchedRectSource\<close>

text \<open>
  The clip only shapes the table that \<open>callback.to_dataframe\<close> returns; that table is an
  argument of \<open>generate\<close> here.  A row of \<open>itertuples()\<close> is the index followed by the
  columns: \<open>row[1]\<close> is the first column (\<open>IndexError\<close> when the table has no column) and
  \<open>row[-1]\<close> the last one.  The clock converter is an optional function.
\<close>

record CallbackSchedRectSource =
  rect_y_base :: real
  converter :: "(pynum \<Rightarrow> pynum) option"


definition RECT_Y_STEP :: real where
  "RECT_Y_STEP = - (15 / 10)"


definition update_rect_y_base :: "CallbackSchedRectSource \<Rightarrow> CallbackSchedRectSource" where
  "update_rect_y_base src = src\<lparr>rect_y_base := rect_y_base src + RECT_Y_STEP\<rparr>"






section \<open>LineSource\<close>

text \<open>
  Modelled from the spec: \<open>RecordsInterface\<close> is not part of the sources.  A record table is
  an ordered sequence of rows, each a mapping from column names to numbers;
  \<open>get_column_series\<close> reads one column over all rows, \<open>None\<close> where a row has no value.
\<close>

record Records =
  columns :: "string list"
  rows :: "(string \<rightharpoonup> pynum) list"

definition get_column_series :: "Records \<Rightarrow> string \<Rightarrow> pynum option list" where
  "get_column_series tbl c = map (\<lambda>r. r c) (rows tbl)"

record LineSource =
  ls_frame_min :: pynum
  ls_xaxis_type :: string

definition line_get_source_keys :: "py_object \<Rightarrow> error + string list" where
  "line_get_source_keys target_object =
     (if is_CallbackBase (cls target_object) then
        Inr [''legend_label'', ''node_name'', ''callback_name'', ''callback_type'',
             ''callback_param'', ''symbol'']
      else if cls target_object = Communication then
        Inr [''legend_label'', ''topic_name'', ''publish_node_name'', ''subscribe_node_name'']
      else if cls target_object = Publisher \<or> cls target_object = Subscription then
        Inr [''legend_label'', ''node_name'', ''topic_name'']
      else Inl NotImplementedError)"

definition ensure_not_none :: "pynum option list \<Rightarrow> error + pynum list" where
  "ensure_not_none target_seq =
     (let not_none_list = map the (filter (\<lambda>v. v \<noteq> None) target_seq)
      in if length target_seq = length not_none_list then Inr not_none_list
         else Inl AssertionError)"

text \<open>\<open>xs[i]\<close> for a non-negative index.\<close>

definition list_index :: "'a list \<Rightarrow> nat \<Rightarrow> error + 'a" where
  "list_index xs i = (if i < length xs then Inr (xs ! i) else Inl IndexError)"

definition get_x_y :: "LineSource \<Rightarrow> Records \<Rightarrow> error + (pynum list \<times> pynum list)" where
  "get_x_y ls timeseries_records =
     (case list_index (columns timeseries_records) 0 of
        Inl e \<Rightarrow> Inl e
      | Inr ts_column \<Rightarrow>
     (case list_index (columns timeseries_records) 1 of
        Inl e \<Rightarrow> Inl e
      | Inr value_column \<Rightarrow>
     (case ensure_not_none (get_column_series timeseries_records ts_column) of
        Inl e \<Rightarrow> Inl e
      | Inr timestamps \<Rightarrow>
     (case ensure_not_none (get_column_series timeseries_records value_column) of
        Inl e \<Rightarrow> Inl e
      | Inr vals \<Rightarrow>
          (let y_item =
                 (if sublist ''latency'' (lower value_column) \<or> sublist ''period'' (lower value_column)
                  then map (\<lambda>v. py_mul v (py_pow10_neg 6)) vals
                  else vals)
           in if ls_xaxis_type ls = ''system_time'' then
                Inr (map (\<lambda>ts. py_mul (py_sub ts (ls_frame_min ls)) (py_pow10_neg 9)) timestamps, y_item)
              else if ls_xaxis_type ls = ''index'' then
                Inr (map (\<lambda>i. PyInt (int i)) [0..<length y_item], y_item)
              else if ls_xaxis_type ls = ''sim_time'' then
                Inr (timestamps, y_item)
              else Inl UnboundLocalError)))))"

fun line_stream_loop ::
  "data_dict \<Rightarrow> (pynum \<times> pynum) list \<Rightarrow> ColumnDataSource \<Rightarrow> error + ColumnDataSource"
where
  "line_stream_loop dd [] line_source = Inr line_source"
| "line_stream_loop dd ((x, y) # ps) line_source =
     (case stream line_source (dict_merge [(''x'', [NumCell x]), (''y'', [NumCell y])] dd) of
        Inl e \<Rightarrow> Inl e
      | Inr line_source1 \<Rightarrow> line_stream_loop dd ps line_source1)"

definition line_generate ::
  "LineSource \<Rightarrow> LegendManager \<Rightarrow> py_object \<Rightarrow> Records \<Rightarrow>
   (error + ColumnDataSource) \<times> LegendManager"
where
  "line_generate ls lm target_object timeseries_records =
     (case line_get_source_keys target_object of
        Inl e \<Rightarrow> (Inl e, lm)
      | Inr ks \<Rightarrow>
          (let line_source = dict_of_keys ([''x'', ''y''] @ ks)
           in case get_data_dict line_get_source_keys lm target_object of
                (Inl e, lm1) \<Rightarrow> (Inl e, lm1)
              | (Inr dd, lm1) \<Rightarrow>
                  (case get_x_y ls timeseries_records of
                     Inl e \<Rightarrow> (Inl e, lm1)
                   | Inr (x_item, y_item) \<Rightarrow>
                       (line_stream_loop dd (zip x_item y_item) line_source, lm1))))"

section \<open>CallbackSchedulingPlot\<close>

text \<open>
  Modelled from the spec: \<open>UniqueList\<close> and the runtime classes \<open>Application\<close>, \<open>Executor\<close>,
  \<open>Node\<close>, \<open>Path\<close> and \<open>CallbackGroup\<close> are imported from modules that are not part of the
  sources.  \<open>UniqueList.append\<close> adds an element unless the list already holds it.  A
  callback group is a value of an arbitrary type \<open>'g\<close>; a node has an optional list of
  callback groups, a communication a publish node and a subscribe node, and a path a list of
  communications.
\<close>

definition UniqueList_append :: "'a list \<Rightarrow> 'a \<Rightarrow> 'a list" where
  "UniqueList_append xs x = (if x \<in> set xs then xs else xs @ [x])"

record 'g node =
  callback_groups :: "'g list option"

record 'g communication =
  publish_node :: "'g node"
  subscribe_node :: "'g node"

datatype 'g target_objects =
    Application "'g list option"
  | Executor "'g list option"
  | Node "'g list option"
  | Path "'g communication list"
  | CallbackGroup 'g
  | Sequence "'g list"

text \<open>\<open>xs or []\<close>: \<open>None\<close> and the empty list both give the empty list.\<close>

definition or_empty :: "'a list option \<Rightarrow> 'a list" where
  "or_empty xs = (case xs of None \<Rightarrow> [] | Some ys \<Rightarrow> ys)"

definition aggregate_callback_groups :: "'g list option \<Rightarrow> error + 'g list" where
  "aggregate_callback_groups cbgs =
     (case cbgs of
        None \<Rightarrow> Inl (InvalidArgumentError ''target.callback_groups is None'')
      | Some gs \<Rightarrow> Inr gs)"

fun get_callback_groups :: "'g target_objects \<Rightarrow> error + 'g list" where
  "get_callback_groups (Application cbgs) = aggregate_callback_groups cbgs"
| "get_callback_groups (Executor cbgs) = aggregate_callback_groups cbgs"
| "get_callback_groups (Node cbgs) = aggregate_callback_groups cbgs"
| "get_callback_groups (Path communications) =
     (let cbgs1 =
            fold (\<lambda>comm acc. fold (\<lambda>cbg acc'. UniqueList_append acc' cbg)
                                 (or_empty (callback_groups (publish_node comm))) acc)
                 communications []
      in case communications of
           [] \<Rightarrow> Inl IndexError
         | _ # _ \<Rightarrow>
             (let cbgs2 =
                    fold (\<lambda>cbg acc'. UniqueList_append acc' cbg)
                         (or_empty (callback_groups (subscribe_node (last communications)))) cbgs1
              in if length cbgs2 = 0
                 then Inl (InvalidArgumentError ''target.callback_groups is None'')
                 else Inr cbgs2))"
| "get_callback_groups (CallbackGroup g) = Inr [g]"
| "get_callback_groups (Sequence gs) = Inr gs"

definition validate_xaxis_type :: "string \<Rightarrow> error + unit" where
  "validate_xaxis_type xaxis_type =
     (if xaxis_type \<notin> set [''system_time'', ''sim_time'']
      then Inl (UnsupportedTypeError
                  (''Unsupported xaxis_type. xaxis_type = '' @ xaxis_type @
                   ''. supported xaxis_type: [system_time/sim_time]''))
      else Inr ())"

text \<open>
  The visualize library builds the figure out of the sources; it is a parameter.  The
  arguments of every call to its \<open>callback_scheduling\<close> are logged, so that a run in which
  no builder executes is one that leaves the log as it was.
\<close>

type_synonym 'g scheduling_args = "'g list \<times> string \<times> bool \<times> bool \<times> string \<times> real \<times> real"

definition figure ::
  "('g scheduling_args \<Rightarrow> error + 'fig) \<Rightarrow> 'g list \<Rightarrow> string \<Rightarrow> bool \<Rightarrow> bool \<Rightarrow> string \<Rightarrow>
   real \<Rightarrow> real \<Rightarrow> 'g scheduling_args list \<Rightarrow> (error + 'fig) \<times> 'g scheduling_args list"
where
  "figure callback_scheduling cbgs xaxis_type ywheel_zoom full_legends coloring_rule
          lstrip_s rstrip_s calls =
     (case validate_xaxis_type xaxis_type of
        Inl e \<Rightarrow> (Inl e, calls)
      | Inr _ \<Rightarrow>
          (if coloring_rule \<notin> set [''callback'', ''callback_group'', ''node'']
           then (Inl (UnsupportedTypeError
                        (''Unsupported coloring_rule. coloring_rule = '' @ coloring_rule @
                         ''. supported coloring_rule: [callback/callback_group/node]'')),
                 calls)
           else (let args = (cbgs, xaxis_type, ywheel_zoom, full_legends, coloring_rule,
                             lstrip_s, rstrip_s)
                 in (callback_scheduling args, calls @ [args]))))"

section \<open>Auxiliary notions for the statements\<close>

text \<open>
  The least multiple of the page size 10 that is not below \<open>max_legends\<close> (0 for a
  non-positive \<open>max_legends\<close>): the page loop stops at this index.
\<close>

definition page_limit :: "int \<Rightarrow> nat" where
  "page_limit max_legends = 10 * nat ((max_legends + 9) div 10)"

text \<open>A manager on which \<open>n\<close> timer callbacks were registered, each with its own renderer.\<close>

definition timer_callback :: "nat \<Rightarrow> py_object" where
  "timer_callback k = PyObject k TimerCallback Map.empty"

definition registered :: "nat \<Rightarrow> LegendManager" where
  "registered n = fold (\<lambda>k lm. add_legend lm (timer_callback k) k) [0..<n] LegendManager_init"



text \<open>
  The de-duplicated, insertion-order-preserving union, in the words of the specification:
  every element once, at the place of its first occurrence.
\<close>

fun ordered_union :: "'a list \<Rightarrow> 'a list" where
  "ordered_union [] = []"
| "ordered_union (x # xs) = x # filter (\<lambda>y. y \<noteq> x) (ordered_union xs)"

text \<open>The callback groups a path contributes, in visiting order, duplicates included.\<close>

definition path_groups :: "'g communication list \<Rightarrow> 'g list" where
  "path_groups communications =
     concat (map (\<lambda>comm. or_empty (callback_groups (publish_node comm))) communications) @
     or_empty (callback_groups (subscribe_node (last communications)))"





text \<open>A publisher with its node and topic names, and a two-column record table.\<close>

definition publisher_obj :: py_object where
  "publisher_obj =
     PyObject 3 Publisher [''node_name'' \<mapsto> Str ''/talker'', ''topic_name'' \<mapsto> Str ''/chatter'']"

definition example_records :: Records where
  "example_records =
     \<lparr>columns = [''timestamp'', ''Latency''],
      rows = [[''timestamp'' \<mapsto> PyInt 10, ''Latency'' \<mapsto> PyInt 1000000],
              [''timestamp'' \<mapsto> PyInt (10 ^ 9 + 10), ''Latency'' \<mapsto> PyInt 2500000]]\<rparr>"

text \<open>A callback of a class that is neither a timer nor a subscription callback.\<close>

definition service_callback :: py_object where
  "service_callback =
     PyObject 5 (OtherCallback ''ServiceCallback'')
       [''node_name'' \<mapsto> Str ''/server'', ''callback_name'' \<mapsto> Str ''/server/callback_0'',
        ''callback_type'' \<mapsto> Str ''service_callback'', ''symbol'' \<mapsto> Str ''Server::on_request'']"

text \<open>Nodes and communications over callback groups that are numbers.\<close>

definition mk_node :: "nat list option \<Rightarrow> nat node" where
  "mk_node cbgs = \<lparr>callback_groups = cbgs\<rparr>"

definition mk_comm :: "nat list option \<Rightarrow> nat list option \<Rightarrow> nat communication" where
  "mk_comm pub sub = \<lparr>publish_node = mk_node pub, subscribe_node = mk_node sub\<rparr>"

text \<open>
  A record table whose second row has no value in the \<open>latency\<close> column, and an object
  of a class for which \<open>LineSource\<close> has no source keys.
\<close>

definition missing_value_records :: Records where
  "missing_value_records =
     \<lparr>columns = [''timestamp'', ''latency''],
      rows = [[''timestamp'' \<mapsto> PyInt 10, ''latency'' \<mapsto> PyInt 5],
              [''timestamp'' \<mapsto> PyInt 20]]\<rparr>"

definition unsupported_target :: py_object where
  "unsupported_target = PyObject 8 (OtherClass ''Executor'') Map.empty"

section \<open>The page loop of \<open>draw_legends\<close>\<close>

lemma page_limit_dvd: "10 dvd page_limit mx"
  by (simp add: page_limit_def)

lemma page_limit_le: "10 dvd i \<Longrightarrow> mx \<le> int i \<Longrightarrow> page_limit mx \<le> i"
  unfolding page_limit_def by (elim dvdE) auto

lemma page_limit_gt: "int i < mx \<Longrightarrow> i < page_limit mx"
  unfolding page_limit_def by linarith

lemma page_limit_multiple: "page_limit (10 * int k) = 10 * k"
  by (simp add: page_limit_def)

lemma emitted_add_layout: "emitted (add_layout fig l) = emitted fig @ items l"
  by (simp add: emitted_def add_layout_def)

lemma emitted_click_policy:
  "emitted (fig\<lparr>legends := map (\<lambda>l. l\<lparr>click_policy := p\<rparr>) (legends fig)\<rparr>) = emitted fig"
  by (simp add: emitted_def comp_def)

text \<open>With \<open>full_legends\<close> the loop emits every entry from its index on and logs nothing.\<close>

lemma draw_loop_full:
  "length its \<le> stop \<Longrightarrow>
   draw_loop True mx its (py_range i stop 10) (fig, ws) = (fig', ws') \<Longrightarrow>
   emitted fig' = emitted fig @ drop i its \<and> ws' = ws"
proof (induction i stop "10 :: nat" arbitrary: fig rule: py_range.induct)
  case (1 i stop)
  show ?case
  proof (cases "stop \<le> i")
    case True
    with 1 show ?thesis by (simp add: py_range.simps)
  next
    case False
    have "take 10 (drop i its) @ drop (i + 10) its = drop i its"
      by (metis add.commute append_take_drop_id drop_drop)
    with False 1 show ?thesis
      by (simp add: py_range.simps [of i] emitted_add_layout)
  qed
qed

text \<open>
  Without \<open>full_legends\<close> the loop emits whole pages up to the page limit, and logs the
  warning exactly when it reaches the index \<open>page_limit max_legends\<close>.
\<close>

lemma draw_loop_paged:
  "length its \<le> stop \<Longrightarrow> 10 dvd i \<Longrightarrow> i \<le> page_limit mx \<Longrightarrow>
   draw_loop False mx its (py_range i stop 10) (fig, ws) = (fig', ws') \<Longrightarrow>
   emitted fig' = emitted fig @ take (page_limit mx - i) (drop i its) \<and>
   ws' = (if page_limit mx < stop then ws @ [truncation_warning mx] else ws)"
proof (induction i stop "10 :: nat" arbitrary: fig rule: py_range.induct)
  case (1 i stop)
  show ?case
  proof (cases "stop \<le> i")
    case True
    with 1 show ?thesis by (simp add: py_range.simps)
  next
    case False
    note ni = False
    show ?thesis
    proof (cases "mx \<le> int i")
      case True
      with 1(3) have "page_limit mx \<le> i" by (rule page_limit_le)
      with 1(4) have "page_limit mx = i" by simp
      with True ni 1(5) show ?thesis by (simp add: py_range.simps [of i])
    next
      case False
      then have lt: "i < page_limit mx" using page_limit_gt by simp
      with 1(3) page_limit_dvd [of mx] have le: "i + 10 \<le> page_limit mx"
        by (elim dvdE) auto
      from le have "page_limit mx - i = 10 + (page_limit mx - (i + 10))" by simp
      then have "take (page_limit mx - i) (drop i its)
                 = take 10 (drop i its) @ take (page_limit mx - (i + 10)) (drop 10 (drop i its))"
        by (simp only: take_add)
      then have tk: "take 10 (drop i its) @ take (page_limit mx - (i + 10)) (drop (i + 10) its)
                = take (page_limit mx - i) (drop i its)"
        by (simp add: add.commute)
      from 1(3) have d: "10 dvd i + 10" by simp
      from False ni 1(5) have
        "draw_loop False mx its (py_range (i + 10) stop 10)
           (add_layout fig \<lparr>items = take 10 (drop i its), click_policy = ''none''\<rparr>, ws) = (fig', ws')"
        by (simp add: py_range.simps [of i])
      from 1(1) [OF _ 1(2) d le this] ni tk show ?thesis
        by (simp add: emitted_add_layout)
    qed
  qed
qed

text \<open>Every layout the loop adds is a page of at most 10 entries.\<close>

lemma draw_loop_pages:
  "draw_loop full mx its idxs (fig, ws) = (fig', ws') \<Longrightarrow>
   \<exists>new. legends fig' = legends fig @ new \<and> list_all (\<lambda>l. length (items l) \<le> 10) new"
proof (induction idxs arbitrary: fig)
  case Nil
  then show ?case by simp
next
  case (Cons i idxs)
  show ?case
  proof (cases "\<not> full \<and> mx \<le> int i")
    case True
    with Cons.prems show ?thesis by auto
  next
    case False
    with Cons.prems have
      "draw_loop full mx its idxs
         (add_layout fig \<lparr>items = take 10 (drop i its), click_policy = ''none''\<rparr>, ws) = (fig', ws')"
      by auto
    from Cons.IH [OF this] obtain new where
      "legends fig' = legends fig @ \<lparr>items = take 10 (drop i its), click_policy = ''none''\<rparr> # new"
      "list_all (\<lambda>l. length (items l) \<le> 10) new"
      by (auto simp: add_layout_def)
    then show ?thesis
      by (intro exI [of _ "\<lparr>items = take 10 (drop i its), click_policy = ''none''\<rparr> # new"]) simp
  qed
qed

lemma draw_legends_full:
  "emitted (fst (draw_legends lm fig mx True)) = emitted fig @ legend_items lm \<and>
   snd (draw_legends lm fig mx True) = []"
proof -
  obtain fig' ws' where r:
    "draw_loop True mx (legend_items lm) (py_range 0 (length (legend_items lm) + 10) 10) (fig, [])
       = (fig', ws')"
    by (cases "draw_loop True mx (legend_items lm) (py_range 0 (length (legend_items lm) + 10) 10) (fig, [])")
  from draw_loop_full [OF _ r] have "emitted fig' = emitted fig @ legend_items lm" "ws' = []"
    by simp_all
  with r show ?thesis by (simp add: draw_legends_def emitted_click_policy)
qed

lemma draw_legends_paged:
  "emitted (fst (draw_legends lm fig mx False)) = emitted fig @ take (page_limit mx) (legend_items lm) \<and>
   snd (draw_legends lm fig mx False) =
     (if page_limit mx < length (legend_items lm) + 10 then [truncation_warning mx] else [])"
proof -
  obtain fig' ws' where r:
    "draw_loop False mx (legend_items lm) (py_range 0 (length (legend_items lm) + 10) 10) (fig, [])
       = (fig', ws')"
    by (cases "draw_loop False mx (legend_items lm) (py_range 0 (length (legend_items lm) + 10) 10) (fig, [])")
  from draw_loop_paged [OF _ _ _ r]
  have "emitted fig' = emitted fig @ take (page_limit mx) (legend_items lm)"
    "ws' = (if page_limit mx < length (legend_items lm) + 10 then [truncation_warning mx] else [])"
    by simp_all
  with r show ?thesis by (simp add: draw_legends_def emitted_click_policy)
qed

text \<open>
  When \<open>max_legends\<close> is a multiple of the page size, the entries shown are the first
  \<open>max_legends\<close> ones, and never more.
\<close>

lemma draw_legends_page_multiple:
  "emitted (fst (draw_legends lm \<lparr>legends = []\<rparr> (10 * int k) False)) = take (10 * k) (legend_items lm)"
  using draw_legends_paged [of lm "\<lparr>legends = []\<rparr>" "10 * int k"]
  by (simp add: page_limit_multiple emitted_def)

lemma draw_legends_click_policy:
  "list_all (\<lambda>l. click_policy l = ''hide'') (legends (fst (draw_legends lm fig mx full)))"
  by (simp add: draw_legends_def list_all_iff split: prod.splits)

lemma length_add_legend:
  "length (legend_items (add_legend lm obj r)) = Suc (length (legend_items lm))"
  by (simp add: add_legend_def get_label_def Let_def split: option.splits)

lemma length_fold_add_legend:
  "length (legend_items (fold (\<lambda>k lm. add_legend lm (f k) (g k)) ks lm))
   = length (legend_items lm) + length ks"
  by (induction ks arbitrary: lm) (simp_all add: length_add_legend)

lemma length_registered: "length (legend_items (registered n)) = n"
  using length_fold_add_legend [of timer_callback "\<lambda>k. k" "[0..<n]" LegendManager_init]
  by (simp add: registered_def LegendManager_init_def)

lemma page_limit_15: "page_limit 15 = 20"
  by (simp add: page_limit_def)

lemma page_limit_20: "page_limit 20 = 20"
  by (simp add: page_limit_def)

text \<open>
  The example of the specification: 25 registered entries and \<open>max_legends = 20\<close>.  Without
  \<open>full_legends\<close> the first 20 entries are shown and one warning is logged; with it all 25
  are shown and nothing is logged.
\<close>

lemma draw_legends_25_20:
  "emitted (fst (draw_legends (registered 25) \<lparr>legends = []\<rparr> 20 False))
     = take 20 (legend_items (registered 25)) \<and>
   snd (draw_legends (registered 25) \<lparr>legends = []\<rparr> 20 False) = [truncation_warning 20] \<and>
   emitted (fst (draw_legends (registered 25) \<lparr>legends = []\<rparr> 20 True))
     = legend_items (registered 25) \<and>
   snd (draw_legends (registered 25) \<lparr>legends = []\<rparr> 20 True) = []"
  using draw_legends_paged [of "registered 25" "\<lparr>legends = []\<rparr>" 20]
    draw_legends_full [of "registered 25" "\<lparr>legends = []\<rparr>" 20]
  by (simp add: page_limit_20 length_registered emitted_def)

text \<open>
  C1.  The documentation of \<open>draw_legends\<close> calls \<open>max_legends\<close> the maximum number of
  legends to display, and the claim says that no further page is emitted once the count
  would exceed it.  With 25 registered entries and \<open>max_legends = 15\<close> (and without
  \<open>full_legends\<close>) the code shows 20 entries: the second page is emitted although it takes
  the count from 10 to 20, beyond 15.  One warning is logged.
\<close>

theorem draw_legends_exceeds_max_legends:
  "length (emitted (fst (draw_legends (registered 25) \<lparr>legends = []\<rparr> 15 False))) = 20 \<and>
   snd (draw_legends (registered 25) \<lparr>legends = []\<rparr> 15 False) = [truncation_warning 15]"
  using draw_legends_paged [of "registered 25" "\<lparr>legends = []\<rparr>" 15]
  by (simp add: page_limit_15 length_registered emitted_def)

text \<open>
  C10.  There are inputs on which no legend entry is left out and the truncation warning is
  logged all the same: with 15 registered entries, \<open>max_legends = 20\<close> and without
  \<open>full_legends\<close>, \<open>draw_legends\<close> shows all 15 entries and logs the warning once.  The
  loop index runs 0, 10, 20, past the number of entries, and it is this index that is
  compared with \<open>max_legends\<close>.
\<close>

theorem draw_legends_warns_without_truncation:
  "length (legend_items lm) = 15 \<Longrightarrow>
   emitted (fst (draw_legends lm fig 20 False)) = emitted fig @ legend_items lm \<and>
   snd (draw_legends lm fig 20 False) = [truncation_warning 20]"
  using draw_legends_paged [of lm fig 20] by (simp add: page_limit_20)

theorem draw_legends_warns_without_truncation_witness:
  "length (legend_items (registered 15)) = 15 \<and>
   emitted (fst (draw_legends (registered 15) \<lparr>legends = []\<rparr> 20 False))
     = legend_items (registered 15) \<and>
   snd (draw_legends (registered 15) \<lparr>legends = []\<rparr> 20 False) = [truncation_warning 20]"
  using draw_legends_warns_without_truncation [of "registered 15" "\<lparr>legends = []\<rparr>"]
  by (simp add: length_registered emitted_def)

section \<open>Legend labels\<close>




lemma get_label_cached: "legend lm (oid x) = Some l \<Longrightarrow> get_label lm x = (l, lm)"
  by (simp add: get_label_def)

lemma get_label_new:
  "legend lm (oid x) = None \<Longrightarrow>
   get_label lm x =
     (lower (class_name (cls x)) @ str_of_nat (legend_count_map lm (class_name (cls x))),
      lm\<lparr>legend_count_map := (legend_count_map lm)
            (class_name (cls x) := legend_count_map lm (class_name (cls x)) + 1),
         legend := (legend lm)(oid x \<mapsto>
            lower (class_name (cls x)) @ str_of_nat (legend_count_map lm (class_name (cls x))))\<rparr>)"
  by (simp add: get_label_def Let_def)

lemma get_label_legend:
  "legend (snd (get_label lm x)) = (legend lm)(oid x \<mapsto> fst (get_label lm x))"
  by (cases "legend lm (oid x)") (auto simp: get_label_new get_label_cached)

lemma add_legend_legend: "legend (add_legend lm x r) = legend (snd (get_label lm x))"
  by (simp add: add_legend_def split_def Let_def get_label_legend)

lemma add_legend_count:
  "legend_count_map (add_legend lm x r) = legend_count_map (snd (get_label lm x))"
  by (simp add: add_legend_def split_def Let_def)

lemma get_label_add_legend: "fst (get_label (add_legend lm x r) y) = fst (get_label (snd (get_label lm x)) y)"
  by (simp add: get_label_def add_legend_legend add_legend_count Let_def split: option.splits)






















lemma str_of_nat_0: "str_of_nat 0 = ''0''"
  by code_simp






section \<open>Rectangle geometry and time series\<close>

lemma to_real_py_sub: "to_real (py_sub a b) = to_real a - to_real b"
  by (cases a; cases b) simp_all

lemma to_real_py_abs: "to_real (py_abs a) = \<bar>to_real a\<bar>"
  by (cases a) simp_all

lemma py_mul_float: "py_mul a (PyFloat c) = PyFloat (to_real a * c)"
  by (cases a) simp_all

text \<open>
  C9.  Rectangle geometry: for every horizontal span (start, end) and vertical span
  (min, max), whatever their order and also when they are empty, \<open>RectValues\<close> gives
  x = mean(start, end), y = mean(min, max), width = |start - end| and height = |min - max|.
  The four properties are total functions of the four numbers; they raise nothing.
  (Numbers are exact here: a \<open>float\<close> is a real number.)
\<close>

theorem RectValues_geometry:
  "to_real (rect_x (RectValues_init s e mn mx)) = (to_real s + to_real e) / 2 \<and>
   to_real (rect_y (RectValues_init s e mn mx)) = (to_real mn + to_real mx) / 2 \<and>
   to_real (rect_width (RectValues_init s e mn mx)) = \<bar>to_real s - to_real e\<bar> \<and>
   to_real (rect_height (RectValues_init s e mn mx)) = \<bar>to_real mn - to_real mx\<bar>"
  by (simp add: rect_x_def rect_y_def rect_width_def rect_height_def RectValues_init_def
      np_mean_def to_real_py_sub to_real_py_abs)

lemma RectValues_examples:
  "rect_x (RectValues_init (PyInt 4) (PyInt 4) (PyFloat (-0.3)) (PyFloat 0.3)) = PyFloat 4 \<and>
   rect_width (RectValues_init (PyInt 4) (PyInt 4) (PyFloat (-0.3)) (PyFloat 0.3)) = PyInt 0 \<and>
   rect_x (RectValues_init (PyInt 10) (PyInt 2) (PyFloat 0.3) (PyFloat (-0.3))) = PyFloat 6 \<and>
   rect_width (RectValues_init (PyInt 10) (PyInt 2) (PyFloat 0.3) (PyFloat (-0.3))) = PyInt 8 \<and>
   rect_y (RectValues_init (PyInt 10) (PyInt 2) (PyFloat 0.3) (PyFloat (-0.3))) = PyFloat 0 \<and>
   rect_height (RectValues_init (PyInt 10) (PyInt 2) (PyFloat 0.3) (PyFloat (-0.3))) = PyFloat 0.6"
  by (simp add: rect_x_def rect_y_def rect_width_def rect_height_def RectValues_init_def np_mean_def)

lemma ensure_not_none_fails: "None \<in> set xs \<Longrightarrow> ensure_not_none xs = Inl AssertionError"
proof -
  assume "None \<in> set xs"
  then have "length (filter (\<lambda>v. v \<noteq> None) xs) < length xs"
    by (intro length_filter_less [of None]) simp_all
  then show ?thesis by (simp add: ensure_not_none_def Let_def)
qed

lemma ensure_not_none_ok: "None \<notin> set xs \<Longrightarrow> ensure_not_none xs = Inr (map the xs)"
proof -
  assume "None \<notin> set xs"
  then have "filter (\<lambda>v. v \<noteq> None) xs = xs" by (intro filter_True) metis
  then show ?thesis by (simp add: ensure_not_none_def Let_def)
qed

lemma get_x_y_missing:
  assumes "columns tbl = tc # vc # others"
    and "None \<in> set (get_column_series tbl tc) \<or> None \<in> set (get_column_series tbl vc)"
  shows "get_x_y ls tbl = Inl AssertionError"
proof (cases "None \<in> set (get_column_series tbl tc)")
  case True
  with assms(1) show ?thesis
    by (simp add: get_x_y_def list_index_def ensure_not_none_fails)
next
  case False
  with assms(2) have "None \<in> set (get_column_series tbl vc)" by simp
  with False assms(1) show ?thesis
    by (simp add: get_x_y_def list_index_def ensure_not_none_fails ensure_not_none_ok)
qed

text \<open>The value sequence that \<open>_get_x_y\<close> returns for a table without missing values.\<close>

lemma get_x_y_complete:
  assumes "columns tbl = tc # vc # others"
    and "None \<notin> set (get_column_series tbl tc)" "None \<notin> set (get_column_series tbl vc)"
  shows "get_x_y ls tbl =
    (let timestamps = map the (get_column_series tbl tc);
         vals = map the (get_column_series tbl vc);
         y_item = (if sublist ''latency'' (lower vc) \<or> sublist ''period'' (lower vc)
                   then map (\<lambda>v. PyFloat (to_real v * (1 / 10 ^ 6))) vals else vals)
     in if ls_xaxis_type ls = ''system_time'' then
          Inr (map (\<lambda>ts. PyFloat ((to_real ts - to_real (ls_frame_min ls)) * (1 / 10 ^ 9))) timestamps,
               y_item)
        else if ls_xaxis_type ls = ''index'' then
          Inr (map (\<lambda>i. PyInt (int i)) [0..<length (rows tbl)], y_item)
        else if ls_xaxis_type ls = ''sim_time'' then Inr (timestamps, y_item)
        else Inl UnboundLocalError)"
  using assms
  by (simp add: get_x_y_def list_index_def ensure_not_none_ok Let_def py_pow10_neg_def
      py_mul_float to_real_py_sub get_column_series_def)


lemma line_generate_get_x_y_fails:
  "get_x_y ls tbl = Inl e \<Longrightarrow>
   fst (line_generate ls lm target tbl) =
     (case fst (get_data_dict line_get_source_keys lm target) of
        Inl e' \<Rightarrow> Inl e' | Inr dd \<Rightarrow> Inl e)"
  by (cases "line_get_source_keys target")
     (auto simp: line_generate_def get_data_dict_def Let_def split: prod.splits sum.splits)

lemma lower_ServiceCallback: "lower ''ServiceCallback'' = ''servicecallback''"
  by code_simp

text \<open>
  \<open>generate\<close> builds the hover data of the target object before it reads the record
  table.  On a table with a missing value it therefore fails with \<open>NotImplementedError\<close>
  for a target of a class without source keys, and with \<open>UnboundLocalError\<close> for a
  callback that is neither a timer nor a subscription callback: not with
  \<open>AssertionError\<close>.
\<close>

theorem line_generate_missing_value_other_error_counterexample:
  "columns missing_value_records = [''timestamp'', ''latency''] \<and>
   None \<in> set (get_column_series missing_value_records ''latency'') \<and>
   fst (line_generate \<lparr>ls_frame_min = PyInt 10, ls_xaxis_type = ''system_time''\<rparr>
          LegendManager_init unsupported_target missing_value_records)
     = Inl NotImplementedError \<and>
   fst (line_generate \<lparr>ls_frame_min = PyInt 10, ls_xaxis_type = ''system_time''\<rparr>
          LegendManager_init service_callback missing_value_records)
     = Inl UnboundLocalError"
  by (simp add: missing_value_records_def get_column_series_def unsupported_target_def
      service_callback_def line_generate_def line_get_source_keys_def get_data_dict_def
      getattr_def get_description_def get_label_def LegendManager_init_def Let_def
      lower_ServiceCallback str_of_nat_0)

text \<open>
  C2, as amended.  When the timestamp column or the value column of the record table holds
  a missing value at any position, \<open>_get_x_y\<close> raises \<open>AssertionError\<close> (the data
  integrity error of the specification), and \<open>LineSource.generate\<close> returns no source at
  all: it fails with \<open>AssertionError\<close> whenever the hover data of the target object was
  built, and with the error of that earlier step otherwise.
\<close>

theorem line_generate_missing_value:
  assumes "columns tbl = tc # vc # others"
    and "None \<in> set (get_column_series tbl tc) \<or> None \<in> set (get_column_series tbl vc)"
  shows "get_x_y ls tbl = Inl AssertionError \<and>
         fst (line_generate ls lm target tbl) =
           (case fst (get_data_dict line_get_source_keys lm target) of
              Inl e \<Rightarrow> Inl e | Inr dd \<Rightarrow> Inl AssertionError) \<and>
         isl (fst (line_generate ls lm target tbl))"
proof -
  from assms have f: "get_x_y ls tbl = Inl AssertionError" by (rule get_x_y_missing)
  from line_generate_get_x_y_fails [OF f]
  have g: "fst (line_generate ls lm target tbl) =
           (case fst (get_data_dict line_get_source_keys lm target) of
              Inl e \<Rightarrow> Inl e | Inr dd \<Rightarrow> Inl AssertionError)" .
  then have "isl (fst (line_generate ls lm target tbl))"
    by (simp split: sum.splits)
  with f g show ?thesis by simp
qed

lemma lower_Publisher: "lower ''Publisher'' = ''publisher''"
  by code_simp

lemma publisher_data_dict:
  "fst (get_data_dict line_get_source_keys LegendManager_init publisher_obj) =
     Inr [(''legend_label'', [StrCell [Lit ''legend_label = '', Interp (Str ''publisher0'')]]),
          (''node_name'', [StrCell [Interp (Str ''node_name''), Lit '' = '', Interp (Str ''/talker'')]]),
          (''topic_name'', [StrCell [Interp (Str ''topic_name''), Lit '' = '', Interp (Str ''/chatter'')]])]"
  by (simp add: get_data_dict_def line_get_source_keys_def publisher_obj_def getattr_def
      get_description_def get_label_def LegendManager_init_def Let_def lower_Publisher str_of_nat_0)

theorem line_generate_missing_value_witness:
  "columns \<lparr>columns = [''timestamp'', ''latency''],
            rows = [[''timestamp'' \<mapsto> PyInt 10, ''latency'' \<mapsto> PyInt 5], [''timestamp'' \<mapsto> PyInt 20]]\<rparr>
     = ''timestamp'' # ''latency'' # [] \<and>
   None \<in> set (get_column_series
       \<lparr>columns = [''timestamp'', ''latency''],
        rows = [[''timestamp'' \<mapsto> PyInt 10, ''latency'' \<mapsto> PyInt 5], [''timestamp'' \<mapsto> PyInt 20]]\<rparr>
       ''latency'') \<and>
   fst (line_generate \<lparr>ls_frame_min = PyInt 10, ls_xaxis_type = ''system_time''\<rparr>
          LegendManager_init publisher_obj
          \<lparr>columns = [''timestamp'', ''latency''],
           rows = [[''timestamp'' \<mapsto> PyInt 10, ''latency'' \<mapsto> PyInt 5], [''timestamp'' \<mapsto> PyInt 20]]\<rparr>)
     = Inl AssertionError"
  using line_generate_missing_value
    [of "\<lparr>columns = [''timestamp'', ''latency''],
          rows = [[''timestamp'' \<mapsto> PyInt 10, ''latency'' \<mapsto> PyInt 5], [''timestamp'' \<mapsto> PyInt 20]]\<rparr>"
        "''timestamp''" "''latency''" "[]"
        "\<lparr>ls_frame_min = PyInt 10, ls_xaxis_type = ''system_time''\<rparr>"
        LegendManager_init publisher_obj]
  by (simp add: get_column_series_def publisher_data_dict)


text \<open>
  C5.  For a record table without missing values in its first two columns, the x sequence
  is, per axis mode: \<open>system_time\<close>: (timestamp - frame_min) * 1e-9 for each timestamp;
  \<open>index\<close>: 0, ..., N-1; \<open>sim_time\<close>: the timestamps unchanged.  With frame minimum 10
  and timestamps 10 and 1e9+10 these are [0.0, 1.0], [0, 1] and [10, 1e9+10].
\<close>

theorem get_x_y_xaxis_modes:
  assumes "columns tbl = tc # vc # others"
    and "None \<notin> set (get_column_series tbl tc)" "None \<notin> set (get_column_series tbl vc)"
  shows "(ls_xaxis_type ls = ''system_time'' \<longrightarrow>
            map_sum id fst (get_x_y ls tbl) =
              Inr (map (\<lambda>r. PyFloat ((to_real (the (r tc)) - to_real (ls_frame_min ls)) * (1 / 10 ^ 9)))
                     (rows tbl))) \<and>
         (ls_xaxis_type ls = ''index'' \<longrightarrow>
            map_sum id fst (get_x_y ls tbl) = Inr (map (\<lambda>i. PyInt (int i)) [0..<length (rows tbl)])) \<and>
         (ls_xaxis_type ls = ''sim_time'' \<longrightarrow>
            map_sum id fst (get_x_y ls tbl) = Inr (map (\<lambda>r. the (r tc)) (rows tbl)))"
  by (simp add: get_x_y_complete [OF assms] Let_def get_column_series_def comp_def)

lemma example_records_complete:
  "columns example_records = ''timestamp'' # ''Latency'' # [] \<and>
   None \<notin> set (get_column_series example_records ''timestamp'') \<and>
   None \<notin> set (get_column_series example_records ''Latency'')"
  by (simp add: example_records_def get_column_series_def)

theorem get_x_y_xaxis_modes_witness:
  "columns example_records = ''timestamp'' # ''Latency'' # [] \<and>
   None \<notin> set (get_column_series example_records ''timestamp'') \<and>
   None \<notin> set (get_column_series example_records ''Latency'') \<and>
   map_sum id fst (get_x_y \<lparr>ls_frame_min = PyInt 10, ls_xaxis_type = ''system_time''\<rparr> example_records)
     = Inr [PyFloat 0, PyFloat 1] \<and>
   map_sum id fst (get_x_y \<lparr>ls_frame_min = PyInt 10, ls_xaxis_type = ''index''\<rparr> example_records)
     = Inr [PyInt 0, PyInt 1] \<and>
   map_sum id fst (get_x_y \<lparr>ls_frame_min = PyInt 10, ls_xaxis_type = ''sim_time''\<rparr> example_records)
     = Inr [PyInt 10, PyInt (10 ^ 9 + 10)]"
  using get_x_y_xaxis_modes
      [of example_records "''timestamp''" "''Latency''" "[]"
          "\<lparr>ls_frame_min = PyInt 10, ls_xaxis_type = ''system_time''\<rparr>"]
    get_x_y_xaxis_modes
      [of example_records "''timestamp''" "''Latency''" "[]"
          "\<lparr>ls_frame_min = PyInt 10, ls_xaxis_type = ''index''\<rparr>"]
    get_x_y_xaxis_modes
      [of example_records "''timestamp''" "''Latency''" "[]"
          "\<lparr>ls_frame_min = PyInt 10, ls_xaxis_type = ''sim_time''\<rparr>"]
    example_records_complete
  by (simp add: example_records_def upt_rec)



lemma sublist_latency: "sublist ''latency'' ''latency''"
  by simp






section \<open>Hover descriptions, chart options and entity resolution\<close>

lemma get_description_timer:
  "cls t = TimerCallback \<Longrightarrow> attrs t ''period_ns'' = Some v \<Longrightarrow>
   get_description lm ''callback_param'' t = (Inr [Lit ''period_ns = '', Interp v], lm)"
  by (simp add: get_description_def getattr_def)

lemma get_description_subscription:
  "cls t = SubscriptionCallback \<Longrightarrow> attrs t ''subscribe_topic_name'' = Some v \<Longrightarrow>
   get_description lm ''callback_param'' t = (Inr [Lit ''subscribe_topic_name = '', Interp v], lm)"
  by (simp add: get_description_def getattr_def)

lemma get_description_no_rule:
  "key \<noteq> ''callback_param'' \<Longrightarrow> key \<noteq> ''legend_label'' \<Longrightarrow>
   get_description lm key t = (Inl NotImplementedError, lm)"
  by (simp add: get_description_def)

lemma get_data_dict_loop_no_rule:
  "attrs t k = None \<Longrightarrow> k \<noteq> ''callback_param'' \<Longrightarrow> k \<noteq> ''legend_label'' \<Longrightarrow>
   get_data_dict_loop t (k # ks) lm dd = (Inl NotImplementedError, lm)"
  by (simp add: getattr_def get_description_no_rule)

text \<open>
  C3.  The claim says that the description rule of \<open>callback_param\<close> fails with the
  unsupported-key error (\<open>NotImplementedError\<close> in the code) for a callback that is
  neither periodic nor event-driven.  In the code no branch assigns \<open>description\<close> for
  such a callback, and the final \<open>return description\<close> raises \<open>UnboundLocalError\<close>
  instead; so does \<open>_get_data_dict\<close> on a service callback that has every other attribute.
  The rest of the claim holds: the lemmas above give the period for a timer callback, the
  topic name for a subscription callback, and \<open>NotImplementedError\<close> for a key with
  neither an attribute nor a rule.
\<close>

theorem get_description_unbound_for_other_callback:
  "get_description lm ''callback_param'' (PyObject i (OtherCallback n) as) = (Inl UnboundLocalError, lm) \<and>
   fst (get_data_dict line_get_source_keys LegendManager_init service_callback) = Inl UnboundLocalError"
  by (simp add: get_description_def get_data_dict_def line_get_source_keys_def service_callback_def
      getattr_def get_label_def LegendManager_init_def Let_def lower_ServiceCallback str_of_nat_0)

text \<open>
  C8.  \<open>figure\<close> raises \<open>UnsupportedTypeError\<close> for every \<open>xaxis_type\<close> other than
  \<open>system_time\<close> and \<open>sim_time\<close>, and for every \<open>coloring_rule\<close> other than
  \<open>callback\<close>, \<open>callback_group\<close> and \<open>node\<close>.  The message names the offending
  value and the supported values, and the visualize library is not called: the log of its
  calls is unchanged and the result does not depend on it.  Only valid options reach it.
\<close>

theorem figure_validates_options:
  "(xaxis_type \<notin> set [''system_time'', ''sim_time''] \<longrightarrow>
      figure callback_scheduling cbgs xaxis_type ywheel_zoom full_legends coloring_rule
        lstrip_s rstrip_s calls =
      (Inl (UnsupportedTypeError
              (''Unsupported xaxis_type. xaxis_type = '' @ xaxis_type @
               ''. supported xaxis_type: [system_time/sim_time]'')), calls)) \<and>
   (xaxis_type \<in> set [''system_time'', ''sim_time''] \<and>
    coloring_rule \<notin> set [''callback'', ''callback_group'', ''node''] \<longrightarrow>
      figure callback_scheduling cbgs xaxis_type ywheel_zoom full_legends coloring_rule
        lstrip_s rstrip_s calls =
      (Inl (UnsupportedTypeError
              (''Unsupported coloring_rule. coloring_rule = '' @ coloring_rule @
               ''. supported coloring_rule: [callback/callback_group/node]'')), calls)) \<and>
   (xaxis_type \<in> set [''system_time'', ''sim_time''] \<and>
    coloring_rule \<in> set [''callback'', ''callback_group'', ''node''] \<longrightarrow>
      figure callback_scheduling cbgs xaxis_type ywheel_zoom full_legends coloring_rule
        lstrip_s rstrip_s calls =
      (callback_scheduling (cbgs, xaxis_type, ywheel_zoom, full_legends, coloring_rule, lstrip_s, rstrip_s),
       calls @ [(cbgs, xaxis_type, ywheel_zoom, full_legends, coloring_rule, lstrip_s, rstrip_s)]))"
  by (auto simp: figure_def validate_xaxis_type_def Let_def)

theorem figure_validates_options_witness:
  "''bogus'' \<notin> set [''system_time'', ''sim_time''] \<and>
   figure (\<lambda>args. Inr (0 :: nat)) [1 :: nat] ''bogus'' True False ''callback'' 0 0 [] =
     (Inl (UnsupportedTypeError
        ''Unsupported xaxis_type. xaxis_type = bogus. supported xaxis_type: [system_time/sim_time]''), []) \<and>
   ''sim_time'' \<in> set [''system_time'', ''sim_time''] \<and>
   ''bogus'' \<notin> set [''callback'', ''callback_group'', ''node''] \<and>
   figure (\<lambda>args. Inr (0 :: nat)) [1 :: nat] ''sim_time'' True False ''bogus'' 0 0 [] =
     (Inl (UnsupportedTypeError
        ''Unsupported coloring_rule. coloring_rule = bogus. supported coloring_rule: [callback/callback_group/node]''), []) \<and>
   ''node'' \<in> set [''callback'', ''callback_group'', ''node''] \<and>
   figure (\<lambda>args. Inr (0 :: nat)) [1 :: nat] ''sim_time'' True False ''node'' 0 0 [] =
     (Inr 0, [([1], ''sim_time'', True, False, ''node'', 0, 0)])"
  using figure_validates_options
      [where xaxis_type = "''bogus''" and coloring_rule = "''callback''"
         and callback_scheduling = "\<lambda>args. Inr (0 :: nat)" and cbgs = "[1 :: nat]"
         and ywheel_zoom = True and full_legends = False and lstrip_s = 0 and rstrip_s = 0
         and calls = "[]"]
    figure_validates_options
      [where xaxis_type = "''sim_time''" and coloring_rule = "''bogus''"
         and callback_scheduling = "\<lambda>args. Inr (0 :: nat)" and cbgs = "[1 :: nat]"
         and ywheel_zoom = True and full_legends = False and lstrip_s = 0 and rstrip_s = 0
         and calls = "[]"]
    figure_validates_options
      [where xaxis_type = "''sim_time''" and coloring_rule = "''node''"
         and callback_scheduling = "\<lambda>args. Inr (0 :: nat)" and cbgs = "[1 :: nat]"
         and ywheel_zoom = True and full_legends = False and lstrip_s = 0 and rstrip_s = 0
         and calls = "[]"]
  by simp


lemma ordered_union_filter: "ordered_union (filter P xs) = filter P (ordered_union xs)"
proof (induction xs)
  case Nil
  then show ?case by simp
next
  case (Cons x xs)
  show ?case
  proof (cases "P x")
    case True
    have "filter (\<lambda>y. y \<noteq> x) (filter P (ordered_union xs))
          = filter P (filter (\<lambda>y. y \<noteq> x) (ordered_union xs))"
      by (simp add: conj_commute)
    with True Cons show ?thesis by simp
  next
    case False
    then have "filter P (filter (\<lambda>y. y \<noteq> x) (ordered_union xs)) = filter P (ordered_union xs)"
      by (auto intro: filter_cong)
    with False Cons show ?thesis by simp
  qed
qed

lemma set_ordered_union: "set (ordered_union xs) = set xs"
  by (induction xs) auto

lemma distinct_ordered_union: "distinct (ordered_union xs)"
  by (induction xs) (simp_all add: set_ordered_union)

lemma ordered_union_Nil_iff: "ordered_union xs = [] \<longleftrightarrow> xs = []"
  by (cases xs) simp_all

lemma fold_UniqueList_append:
  "fold (\<lambda>cbg acc. UniqueList_append acc cbg) xs acc
   = acc @ ordered_union (filter (\<lambda>y. y \<notin> set acc) xs)"
proof (induction xs arbitrary: acc)
  case Nil
  then show ?case by simp
next
  case (Cons x xs)
  show ?case
  proof (cases "x \<in> set acc")
    case True
    with Cons show ?thesis by (simp add: UniqueList_append_def)
  next
    case False
    have "ordered_union (filter (\<lambda>y. y \<notin> set (acc @ [x])) xs)
          = filter (\<lambda>y. y \<noteq> x) (ordered_union (filter (\<lambda>y. y \<notin> set acc) xs))"
      by (simp add: ordered_union_filter conj_commute)
    with False Cons [of "acc @ [x]"] show ?thesis by (simp add: UniqueList_append_def)
  qed
qed

lemma fold_fold_UniqueList_append:
  "fold (\<lambda>comm acc. fold (\<lambda>cbg acc'. UniqueList_append acc' cbg) (g comm) acc) comms acc
   = fold (\<lambda>cbg acc'. UniqueList_append acc' cbg) (concat (map g comms)) acc"
  by (induction comms arbitrary: acc) simp_all

lemma get_callback_groups_Path:
  assumes "communications \<noteq> []"
  shows "get_callback_groups (Path communications) =
     (if path_groups communications = []
      then Inl (InvalidArgumentError ''target.callback_groups is None'')
      else Inr (ordered_union (path_groups communications)))"
proof -
  let ?app = "\<lambda>cbg acc'. UniqueList_append acc' cbg"
  let ?pub = "concat (map (\<lambda>comm. or_empty (callback_groups (publish_node comm))) communications)"
  let ?sub = "or_empty (callback_groups (subscribe_node (last communications)))"
  have "fold ?app ?sub (fold ?app ?pub []) = fold ?app (?pub @ ?sub) []" by simp
  also have "\<dots> = ordered_union (path_groups communications)"
    by (simp only: fold_UniqueList_append path_groups_def) simp
  finally have u: "fold ?app ?sub (fold ?app ?pub []) = ordered_union (path_groups communications)" .
  from assms obtain c cs where c: "communications = c # cs" by (cases communications) auto
  have "get_callback_groups (Path communications) =
     (if length (fold ?app ?sub (fold ?app ?pub [])) = 0
      then Inl (InvalidArgumentError ''target.callback_groups is None'')
      else Inr (fold ?app ?sub (fold ?app ?pub [])))"
    unfolding c by (simp add: fold_fold_UniqueList_append Let_def)
  then show ?thesis by (simp only: u length_0_conv ordered_union_Nil_iff)
qed


lemma remdups_snoc: "remdups (ys @ [x]) = filter (\<lambda>y. y \<noteq> x) (remdups ys) @ [x]"
  by (induction ys) auto

lemma ordered_union_remdups: "ordered_union xs = rev (remdups (rev xs))"
  by (induction xs) (simp_all add: remdups_snoc rev_filter)

text \<open>
  A path of two hops whose callback groups have nothing in common is resolved to the union
  of the groups.
\<close>

lemma get_callback_groups_disjoint_hops:
  "get_callback_groups (Path [mk_comm (Some [1]) None, mk_comm None (Some [3])]) = Inr [1, 3]"
  by (simp add: mk_comm_def mk_node_def or_empty_def UniqueList_append_def)

text \<open>
  For a causal path with at least one hop, the callback groups are the de-duplicated union,
  in insertion order, of the groups of every hop's publish node followed by those of the
  last hop's subscribe node; \<open>InvalidArgumentError\<close> is raised exactly when that union is
  empty.  For an application, executor or node whose callback-group collection is absent,
  \<open>InvalidArgumentError\<close> is raised.
\<close>

lemma get_callback_groups_resolution:
  "(communications \<noteq> [] \<longrightarrow>
      get_callback_groups (Path communications) =
        (if path_groups communications = []
         then Inl (InvalidArgumentError ''target.callback_groups is None'')
         else Inr (ordered_union (path_groups communications)))) \<and>
   distinct (ordered_union (path_groups communications)) \<and>
   set (ordered_union (path_groups communications)) = set (path_groups communications) \<and>
   ordered_union (path_groups communications) = rev (remdups (rev (path_groups communications))) \<and>
   get_callback_groups (Application None :: 'g target_objects)
     = Inl (InvalidArgumentError ''target.callback_groups is None'') \<and>
   get_callback_groups (Executor None :: 'g target_objects)
     = Inl (InvalidArgumentError ''target.callback_groups is None'') \<and>
   get_callback_groups (Node None :: 'g target_objects)
     = Inl (InvalidArgumentError ''target.callback_groups is None'')"
proof (intro conjI impI)
  assume "communications \<noteq> []"
  then show "get_callback_groups (Path communications) =
        (if path_groups communications = []
         then Inl (InvalidArgumentError ''target.callback_groups is None'')
         else Inr (ordered_union (path_groups communications)))"
    by (rule get_callback_groups_Path)
qed (simp_all add: distinct_ordered_union set_ordered_union ordered_union_remdups [symmetric]
      aggregate_callback_groups_def)

lemma get_callback_groups_resolution_example:
  "[mk_comm (Some [1, 2]) (Some [2, 3]), mk_comm (Some [2, 3]) (Some [3, 1, 4])] \<noteq> [] \<and>
   get_callback_groups (Path [mk_comm (Some [1, 2]) (Some [2, 3]), mk_comm (Some [2, 3]) (Some [3, 1, 4])])
     = Inr [1, 2, 3, 4] \<and>
   [mk_comm None (Some [])] \<noteq> [] \<and>
   get_callback_groups (Path [mk_comm None (Some [])])
     = Inl (InvalidArgumentError ''target.callback_groups is None'')"
  using get_callback_groups_resolution
      [of "[mk_comm (Some [1, 2]) (Some [2, 3]), mk_comm (Some [2, 3]) (Some [3, 1, 4])]"]
    get_callback_groups_resolution [of "[mk_comm None (Some [])]"]
  by (simp add: path_groups_def mk_comm_def mk_node_def or_empty_def
      del: get_callback_groups.simps) blast

text \<open>
  C7.  The claim says that resolving a causal path raises \<open>InvalidArgumentError\<close> when the
  union of the callback groups is empty.  A path without communications has no hop, so
  its union is empty; the code collects nothing in the loop over the hops and then indexes
  the last hop, \<open>communications[-1]\<close>, which raises \<open>IndexError\<close> before the check
  of the length is reached.  For every path with at least one hop, and for the aggregates,
  the claim holds (\<open>get_callback_groups_resolution\<close>).
\<close>

theorem get_callback_groups_empty_path_index_error:
  "get_callback_groups (Path ([] :: 'g communication list)) = Inl IndexError \<and>
   concat (map (\<lambda>comm. or_empty (callback_groups (publish_node comm)))
             ([] :: 'g communication list)) = []"
  by simp

end
